theory Spec2Isabelle
  imports Main "HOL-Library.Word"
begin

section \<open>Protected memory\<close>

text \<open>
  \<open>Sodium::Key\<close> (src/include/key.h) keeps its bytes in a
  \<open>std::vector<unsigned char, SodiumAlloc<unsigned char>>\<close>. The vector's buffer lives in
  pages whose protection is changed with \<open>mprotect()\<close>. The model keeps an explicit store:
  every allocation is a region with its bytes and its current protection.
\<close>

type_synonym byte = "8 word"
type_synonym addr = nat

datatype access = NoAccess | ReadOnly | ReadWrite

record region =
  content :: "byte list"
  prot :: access

text \<open>
  The world the program runs in: the protected pages, the next address the allocator hands
  out, the number of bytes the platform can still grant, and the random source of
  \<open>randombytes_buf()\<close> (a stream and the number of bytes drawn from it so far).
\<close>

record world =
  pages :: "addr \<Rightarrow> region option"
  fresh :: addr
  avail :: nat
  entropy :: "nat \<Rightarrow> byte"
  drawn :: nat

text \<open>
  What a call can do: return, throw a C++ exception (which a caller can catch; the state
  left behind is kept), or bring the process down (a hardware trap on a protection
  violation: nothing is left). \<open>setpass\<close> throws \<open>std::runtime_error\<close>, the allocator
  \<open>std::bad_alloc\<close>.
\<close>

datatype exn = bad_alloc | runtime_error string

datatype ('a, 's) outcome = Done 'a | Raised exn 's | Crashed

definition andThen :: "('a, 's) outcome \<Rightarrow> ('a \<Rightarrow> ('b, 's) outcome) \<Rightarrow> ('b, 's) outcome" where
  "andThen m f = (case m of Done x \<Rightarrow> f x | Raised e s \<Rightarrow> Raised e s | Crashed \<Rightarrow> Crashed)"

text \<open>
  Reading and writing through a pointer, as the CPU enforces it: a read of \<open>n > 0\<close> bytes
  needs a live region that is not \<open>NoAccess\<close>, a write needs \<open>ReadWrite\<close>; anything else,
  and any access past the end of the region (the guard page), traps (\<open>None\<close>). An access of
  zero bytes touches no memory.
\<close>

definition load :: "world \<Rightarrow> addr option \<Rightarrow> nat \<Rightarrow> byte list option" where
  "load w p n =
     (if n = 0 then Some []
      else case p of
        None \<Rightarrow> None
      | Some a \<Rightarrow>
          (case pages w a of
             None \<Rightarrow> None
           | Some r \<Rightarrow>
               if prot r = NoAccess \<or> length (content r) < n then None
               else Some (take n (content r))))"

definition store :: "world \<Rightarrow> addr option \<Rightarrow> byte list \<Rightarrow> world option" where
  "store w p bs =
     (if bs = [] then Some w
      else case p of
        None \<Rightarrow> None
      | Some a \<Rightarrow>
          (case pages w a of
             None \<Rightarrow> None
           | Some r \<Rightarrow>
               if prot r \<noteq> ReadWrite \<or> length (content r) < length bs then None
               else Some (w\<lparr>pages := (pages w)(a \<mapsto> r\<lparr>content := bs @ drop (length bs) (content r)\<rparr>)\<rparr>)))"

subsection \<open>The allocator\<close>

text \<open>
  Modelled from the spec: \<open>SodiumAlloc::allocate\<close> of alloc.h, which is not among the
  sources. Spec 4.1: \<open>allocate(n)\<close> reserves a region sized to hold \<open>n\<close> bytes and fails
  (allocation error) when the platform cannot satisfy the request. A fresh region is
  read-write; its bytes are the allocator's fill pattern.
\<close>

definition SodiumAlloc_allocate :: "world \<Rightarrow> nat \<Rightarrow> (addr \<times> world, world) outcome" where
  "SodiumAlloc_allocate w n =
     (if avail w < n then Raised bad_alloc w
      else Done (fresh w,
        w\<lparr>pages := (pages w)(fresh w \<mapsto> \<lparr>content = replicate n 0xDB, prot = ReadWrite\<rparr>),
          fresh := Suc (fresh w),
          avail := avail w - n\<rparr>))"

text \<open>
  Modelled from the spec: \<open>SodiumAlloc::deallocate\<close> of alloc.h. Spec 4.1:
  \<open>release(handle)\<close> returns the pages to the OS; spec 3, invariant 4: whatever the
  protection, the content is wiped before the pages are released. Releasing what is not
  a live allocation is fatal.
\<close>

definition SodiumAlloc_deallocate :: "world \<Rightarrow> addr \<Rightarrow> (world, world) outcome" where
  "SodiumAlloc_deallocate w a =
     (case pages w a of
        None \<Rightarrow> Crashed
      | Some r \<Rightarrow> Done (w\<lparr>pages := (pages w)(a := None), avail := avail w + length (content r)\<rparr>))"

text \<open>
  Modelled from the spec: \<open>SodiumAlloc::noaccess\<close>, \<open>readonly\<close> and \<open>readwrite\<close> of
  alloc.h. Spec 4.1: \<open>setNoAccess(handle)\<close>, \<open>setReadOnly(handle)\<close>,
  \<open>setReadWrite(handle)\<close> change the page protection of an allocation. A pointer that is
  not a live allocation has no page to protect: the call brings the process down
  (src/tests/test_key.cpp, lines 268-272: on an empty key \<open>readonly()\<close> "will crash the
  program", "because mprotect() on a 0-page won't work").
\<close>

definition SodiumAlloc_protect :: "world \<Rightarrow> addr option \<Rightarrow> access \<Rightarrow> (world, world) outcome" where
  "SodiumAlloc_protect w p s =
     (case p of
        None \<Rightarrow> Crashed
      | Some a \<Rightarrow>
          (case pages w a of
             None \<Rightarrow> Crashed
           | Some r \<Rightarrow> Done (w\<lparr>pages := (pages w)(a \<mapsto> r\<lparr>prot := s\<rparr>)\<rparr>)))"

definition SodiumAlloc_noaccess :: "world \<Rightarrow> addr option \<Rightarrow> (world, world) outcome" where
  "SodiumAlloc_noaccess w p = SodiumAlloc_protect w p NoAccess"

definition SodiumAlloc_readonly :: "world \<Rightarrow> addr option \<Rightarrow> (world, world) outcome" where
  "SodiumAlloc_readonly w p = SodiumAlloc_protect w p ReadOnly"

definition SodiumAlloc_readwrite :: "world \<Rightarrow> addr option \<Rightarrow> (world, world) outcome" where
  "SodiumAlloc_readwrite w p = SodiumAlloc_protect w p ReadWrite"

subsection \<open>The vector of key bytes\<close>

text \<open>
  \<open>key_t = std::vector<unsigned char, SodiumAlloc<unsigned char>>\<close>: the pointer
  \<open>data()\<close> (null while the vector owns no buffer), the number of elements \<open>size()\<close> and
  the size of the buffer \<open>capacity()\<close>.
\<close>

record vector =
  vdata :: "addr option"
  vsize :: nat
  vcap :: nat

text \<open>
  \<open>vector(n)\<close>: no allocation for \<open>n = 0\<close>; otherwise one allocation of \<open>n\<close> bytes, each
  element value-initialised (zero).
\<close>

definition vector_ctor :: "world \<Rightarrow> nat \<Rightarrow> (world \<times> vector, world) outcome" where
  "vector_ctor w n =
     (if n = 0 then Done (w, \<lparr>vdata = None, vsize = 0, vcap = 0\<rparr>)
      else andThen (SodiumAlloc_allocate w n) (\<lambda>(a, w1).
        case store w1 (Some a) (replicate n 0) of
          None \<Rightarrow> Crashed
        | Some w2 \<Rightarrow> Done (w2, \<lparr>vdata = Some a, vsize = n, vcap = n\<rparr>)))"

text \<open>
  The copy constructor \<open>vector(const vector &)\<close>: a buffer of its own, of \<open>size()\<close> bytes,
  filled with the elements read from the source.
\<close>

definition vector_copy_ctor :: "world \<Rightarrow> vector \<Rightarrow> (world \<times> vector, world) outcome" where
  "vector_copy_ctor w other =
     (if vsize other = 0 then Done (w, \<lparr>vdata = None, vsize = 0, vcap = 0\<rparr>)
      else andThen (SodiumAlloc_allocate w (vsize other)) (\<lambda>(a, w1).
        case load w1 (vdata other) (vsize other) of
          None \<Rightarrow> Crashed
        | Some bs \<Rightarrow>
            (case store w1 (Some a) bs of
               None \<Rightarrow> Crashed
             | Some w2 \<Rightarrow> Done (w2, \<lparr>vdata = Some a, vsize = vsize other, vcap = vsize other\<rparr>))))"

text \<open>
  Copy assignment \<open>operator=(const vector &)\<close>: nothing on self-assignment; a new buffer
  (and the old one released) when the source has more elements than the target's
  capacity; otherwise the elements are copied into the target's own buffer, which stays
  where it is.
\<close>

definition vector_copy_assign :: "world \<Rightarrow> vector \<Rightarrow> vector \<Rightarrow> (world \<times> vector, world) outcome" where
  "vector_copy_assign w this other =
     (if this = other then Done (w, this)
      else if vcap this < vsize other then
        andThen (SodiumAlloc_allocate w (vsize other)) (\<lambda>(a, w1).
          case load w1 (vdata other) (vsize other) of
            None \<Rightarrow> Crashed
          | Some bs \<Rightarrow>
              (case store w1 (Some a) bs of
                 None \<Rightarrow> Crashed
               | Some w2 \<Rightarrow>
                   andThen (case vdata this of
                              None \<Rightarrow> Done w2
                            | Some old \<Rightarrow> SodiumAlloc_deallocate w2 old)
                     (\<lambda>w3. Done (w3, \<lparr>vdata = Some a, vsize = vsize other, vcap = vsize other\<rparr>))))
      else
        (case load w (vdata other) (vsize other) of
           None \<Rightarrow> Crashed
         | Some bs \<Rightarrow>
             (case store w (vdata this) bs of
                None \<Rightarrow> Crashed
              | Some w1 \<Rightarrow> Done (w1, this\<lparr>vsize := vsize other\<rparr>))))"

section \<open>libsodium\<close>

text \<open>
  libsodium is an external library. Its key derivation function and its constants are
  parameters of the model: \<open>crypto_pwhash S outlen passwd salt opslimit memlimit alg\<close> is
  the return code of \<open>crypto_pwhash()\<close> together with the bytes it leaves in
  \<open>out[0..outlen-1]\<close>. A value \<open>S\<close> stands for the library as it answers one call, in the
  circumstances of that call: \<open>crypto_pwhash()\<close> also fails when it cannot get its working
  memory (key.h, lines 143-145), so the same arguments can meet a different answer under
  other circumstances, which are a different \<open>S\<close>. The properties below hold for every \<open>S\<close>.
\<close>

record sodium =
  crypto_pwhash :: "nat \<Rightarrow> string \<Rightarrow> byte list \<Rightarrow> nat \<Rightarrow> nat \<Rightarrow> int \<Rightarrow> int \<times> (nat \<Rightarrow> byte)"
  crypto_pwhash_SALTBYTES :: nat
  crypto_pwhash_MEMLIMIT_INTERACTIVE :: nat
  crypto_pwhash_OPSLIMIT_INTERACTIVE :: nat
  crypto_pwhash_MEMLIMIT_MODERATE :: nat
  crypto_pwhash_OPSLIMIT_MODERATE :: nat
  crypto_pwhash_MEMLIMIT_SENSITIVE :: nat
  crypto_pwhash_OPSLIMIT_SENSITIVE :: nat
  crypto_pwhash_ALG_DEFAULT :: int

text \<open>\<open>crypto_pwhash(out, outlen, ...)\<close> called on a buffer: the bytes are written to it.\<close>

definition crypto_pwhash_into ::
  "sodium \<Rightarrow> world \<Rightarrow> addr option \<Rightarrow> nat \<Rightarrow> string \<Rightarrow> byte list \<Rightarrow> nat \<Rightarrow> nat \<Rightarrow> int
     \<Rightarrow> (int \<times> world, world) outcome" where
  "crypto_pwhash_into S w out outlen passwd salt opslimit memlimit alg =
     (case crypto_pwhash S outlen passwd salt opslimit memlimit alg of
        (rc, bytes) \<Rightarrow>
          (case store w out (map bytes [0..<outlen]) of
             None \<Rightarrow> Crashed
           | Some w1 \<Rightarrow> Done (rc, w1)))"

text \<open>\<open>randombytes_buf(buf, size)\<close>: the next \<open>size\<close> bytes of the random source.\<close>

definition randombytes_buf :: "world \<Rightarrow> addr option \<Rightarrow> nat \<Rightarrow> (world, world) outcome" where
  "randombytes_buf w buf n =
     (case store w buf (map (entropy w) [drawn w..<drawn w + n]) of
        None \<Rightarrow> Crashed
      | Some w1 \<Rightarrow> Done (w1\<lparr>drawn := drawn w + n\<rparr>))"

text \<open>\<open>sodium_memzero(pnt, len)\<close>.\<close>

definition sodium_memzero :: "world \<Rightarrow> addr option \<Rightarrow> nat \<Rightarrow> (world, world) outcome" where
  "sodium_memzero w pnt len =
     (case store w pnt (replicate len 0) of None \<Rightarrow> Crashed | Some w1 \<Rightarrow> Done w1)"

text \<open>\<open>sodium_is_zero(n, nlen)\<close>, the test suite's \<open>isAllZero\<close>.\<close>

definition isAllZero :: "byte list \<Rightarrow> bool" where
  "isAllZero bs = (bs = replicate (length bs) 0)"

section \<open>Sodium::Key\<close>

text \<open>The class has one data member, \<open>key_t keydata\<close> (key.h, line 262).\<close>

record Key =
  keydata :: vector

text \<open>
  \<open>strength_t = enum class Strength { low, medium, high }\<close> (key.h, line 86), by its
  underlying value: a \<open>strength_t\<close> can hold other values than the three enumerators, which
  is what the \<open>default:\<close> branch of \<open>setpass\<close> is for.
\<close>

type_synonym strength_t = int

definition low :: strength_t where "low = 0"
definition medium :: strength_t where "medium = 1"
definition high :: strength_t where "high = 2"

text \<open>\<open>data()\<close> and \<open>size()\<close> (key.h, lines 131-132).\<close>

definition Key_data :: "Key \<Rightarrow> addr option" where
  "Key_data k = vdata (keydata k)"

definition Key_size :: "Key \<Rightarrow> nat" where
  "Key_size k = vsize (keydata k)"

text \<open>
  \<open>noaccess()\<close>, \<open>readonly()\<close>, \<open>readwrite()\<close> (key.h, lines 239, 252, 259):
  \<open>keydata.get_allocator().noaccess(keydata.data())\<close> and so on.
\<close>

definition Key_noaccess :: "world \<Rightarrow> Key \<Rightarrow> (world, world) outcome" where
  "Key_noaccess w k = SodiumAlloc_noaccess w (Key_data k)"

definition Key_readonly :: "world \<Rightarrow> Key \<Rightarrow> (world, world) outcome" where
  "Key_readonly w k = SodiumAlloc_readonly w (Key_data k)"

definition Key_readwrite :: "world \<Rightarrow> Key \<Rightarrow> (world, world) outcome" where
  "Key_readwrite w k = SodiumAlloc_readwrite w (Key_data k)"

text \<open>\<open>initialize()\<close> (key.h, lines 201-203) and \<open>destroy()\<close> (key.h, lines 222-225).\<close>

definition Key_initialize :: "world \<Rightarrow> Key \<Rightarrow> (world, world) outcome" where
  "Key_initialize w k = randombytes_buf w (Key_data k) (Key_size k)"

definition Key_destroy :: "world \<Rightarrow> Key \<Rightarrow> (world, world) outcome" where
  "Key_destroy w k =
     andThen (Key_readwrite w k) (\<lambda>w1. sodium_memzero w1 (Key_data k) (Key_size k))"

text \<open>
  \<open>Key(std::size_t key_size, bool init = true) : keydata(key_size)\<close> (key.h, lines
  102-108): with \<open>init\<close>, \<open>initialize()\<close> and then \<open>readonly()\<close>.
\<close>

definition Key_ctor :: "world \<Rightarrow> nat \<Rightarrow> bool \<Rightarrow> (world \<times> Key, world) outcome" where
  "Key_ctor w key_size init =
     andThen (vector_ctor w key_size) (\<lambda>(w1, v).
       if init then
         andThen (Key_initialize w1 \<lparr>keydata = v\<rparr>) (\<lambda>w2.
           andThen (Key_readonly w2 \<lparr>keydata = v\<rparr>) (\<lambda>w3. Done (w3, \<lparr>keydata = v\<rparr>)))
       else Done (w1, \<lparr>keydata = v\<rparr>))"

text \<open>
  The \<open>switch (strength)\<close> of \<open>setpass\<close>: the memory and CPU limits of a strength, \<open>None\<close> in
  the \<open>default:\<close> branch.
\<close>

definition strength_limits :: "sodium \<Rightarrow> strength_t \<Rightarrow> (nat \<times> nat) option" where
  "strength_limits S strength =
     (if strength = low then
        Some (crypto_pwhash_MEMLIMIT_INTERACTIVE S, crypto_pwhash_OPSLIMIT_INTERACTIVE S)
      else if strength = medium then
        Some (crypto_pwhash_MEMLIMIT_MODERATE S, crypto_pwhash_OPSLIMIT_MODERATE S)
      else if strength = high then
        Some (crypto_pwhash_MEMLIMIT_SENSITIVE S, crypto_pwhash_OPSLIMIT_SENSITIVE S)
      else None)"

text \<open>\<open>KEYSIZE_SALT = crypto_pwhash_SALTBYTES\<close> (key.h, line 64).\<close>

definition KEYSIZE_SALT :: "sodium \<Rightarrow> nat" where
  "KEYSIZE_SALT S = crypto_pwhash_SALTBYTES S"

text \<open>The three \<open>std::runtime_error\<close>s of \<open>setpass\<close>, told apart by their messages.\<close>

definition wrong_strength :: exn where
  "wrong_strength = runtime_error ''Sodium:::Key::setpass() wrong strength''"

definition wrong_salt_size :: exn where
  "wrong_salt_size = runtime_error ''Sodium::Key::setpass() wrong salt size''"

definition pwhash_failed :: exn where
  "pwhash_failed = runtime_error ''Sodium::Key::setpass() crypto_pwhash()''"

text \<open>
  \<open>setpass(password, salt, strength)\<close> (key.h, lines 148-185): the strength is checked
  first, then the salt's size; then \<open>readwrite()\<close>, \<open>crypto_pwhash()\<close> into the key's
  buffer, and \<open>readonly()\<close> unless \<open>crypto_pwhash()\<close> failed.
\<close>

definition Key_setpass ::
  "sodium \<Rightarrow> world \<Rightarrow> Key \<Rightarrow> string \<Rightarrow> byte list \<Rightarrow> strength_t \<Rightarrow> (world, world) outcome" where
  "Key_setpass S w k password salt strength =
     (case strength_limits S strength of
        None \<Rightarrow> Raised wrong_strength w
      | Some (strength_mem, strength_cpu) \<Rightarrow>
          if length salt \<noteq> KEYSIZE_SALT S then Raised wrong_salt_size w
          else
            andThen (Key_readwrite w k) (\<lambda>w1.
              andThen (crypto_pwhash_into S w1 (Key_data k) (Key_size k) password salt
                         strength_cpu strength_mem (crypto_pwhash_ALG_DEFAULT S))
                (\<lambda>(rc, w2). if rc \<noteq> 0 then Raised pwhash_failed w2 else Key_readonly w2 k)))"

text \<open>
  \<open>Key(const Key &other) = default\<close> and \<open>Key& operator= (const Key &other) = default\<close>
  (key.h, lines 111-112): the member \<open>keydata\<close> is copied.
\<close>

definition Key_copy_ctor :: "world \<Rightarrow> Key \<Rightarrow> (world \<times> Key, world) outcome" where
  "Key_copy_ctor w other =
     andThen (vector_copy_ctor w (keydata other)) (\<lambda>(w1, v). Done (w1, \<lparr>keydata = v\<rparr>))"

definition Key_copy_assign :: "world \<Rightarrow> Key \<Rightarrow> Key \<Rightarrow> (world \<times> Key, world) outcome" where
  "Key_copy_assign w this other =
     andThen (vector_copy_assign w (keydata this) (keydata other))
       (\<lambda>(w1, v). Done (w1, \<lparr>keydata = v\<rparr>))"

text \<open>
  The class declares its copy operations (\<open>= default\<close>) and no move operations. A class
  with a user-declared copy constructor or copy assignment operator gets no implicit move
  constructor and no implicit move assignment operator, so \<open>Key k2 {std::move(k)}\<close> and
  \<open>k2 = std::move(k)\<close> select \<open>Key(const Key &)\<close> and \<open>operator= (const Key &)\<close>:
  overload resolution binds the rvalue to the const reference.
\<close>

definition Key_move_ctor :: "world \<Rightarrow> Key \<Rightarrow> (world \<times> Key, world) outcome" where
  "Key_move_ctor w other = Key_copy_ctor w other"

definition Key_move_assign :: "world \<Rightarrow> Key \<Rightarrow> Key \<Rightarrow> (world \<times> Key, world) outcome" where
  "Key_move_assign w this other = Key_copy_assign w this other"

section \<open>Observing a key\<close>

text \<open>
  What the properties below speak about: the bytes of a key as they stand in memory
  (whatever the protection of the page), the protection of its page, and whether the key
  owns a buffer at all. A key owns a page when \<open>data()\<close> is a live allocation as large as
  the vector's capacity; a key of size 0 built by the constructor owns none.
\<close>

definition Key_bytes :: "world \<Rightarrow> Key \<Rightarrow> byte list" where
  "Key_bytes w k =
     (case Key_data k of
        None \<Rightarrow> []
      | Some a \<Rightarrow> (case pages w a of None \<Rightarrow> [] | Some r \<Rightarrow> take (Key_size k) (content r)))"

definition Key_access :: "world \<Rightarrow> Key \<Rightarrow> access option" where
  "Key_access w k =
     (case Key_data k of
        None \<Rightarrow> None
      | Some a \<Rightarrow> (case pages w a of None \<Rightarrow> None | Some r \<Rightarrow> Some (prot r)))"

definition owns_page :: "world \<Rightarrow> Key \<Rightarrow> bool" where
  "owns_page w k =
     (case Key_data k of
        None \<Rightarrow> False
      | Some a \<Rightarrow>
          (case pages w a of
             None \<Rightarrow> False
           | Some r \<Rightarrow>
               length (content r) = vcap (keydata k) \<and> vsize (keydata k) \<le> vcap (keydata k)))"

text \<open>The allocator never hands out an address twice: nothing lives at or above \<open>fresh\<close>.\<close>

definition world_inv :: "world \<Rightarrow> bool" where
  "world_inv w = (\<forall>a. fresh w \<le> a \<longrightarrow> pages w a = None)"


text \<open>
  What \<open>crypto_pwhash()\<close> answers to the call \<open>setpass\<close> makes on a key of \<open>n\<close> bytes: its
  return code and the \<open>n\<close> bytes of output (\<open>None\<close> for an unrecognised strength, for which
  \<open>setpass\<close> makes no call).
\<close>

definition setpass_pwhash ::
  "sodium \<Rightarrow> nat \<Rightarrow> string \<Rightarrow> byte list \<Rightarrow> strength_t \<Rightarrow> (int \<times> byte list) option" where
  "setpass_pwhash S n password salt strength =
     (case strength_limits S strength of
        None \<Rightarrow> None
      | Some (strength_mem, strength_cpu) \<Rightarrow>
          (case crypto_pwhash S n password salt strength_cpu strength_mem
                  (crypto_pwhash_ALG_DEFAULT S) of
             (rc, bytes) \<Rightarrow> Some (rc, map bytes [0..<n])))"

section \<open>Sequences of calls on one key\<close>





section \<open>Concrete inputs\<close>

text \<open>
  A world with no allocation yet, and a stand-in for libsodium with the constants of
  libsodium 1.0.18 and a derivation function that always succeeds. They serve to
  instantiate the theorems below at concrete inputs.
\<close>

definition world0 :: world where
  "world0 = \<lparr>pages = (\<lambda>a. None), fresh = 0, avail = 4096, entropy = (\<lambda>i. of_nat (i + 1)), drawn = 0\<rparr>"

definition sodium0 :: sodium where
  "sodium0 =
     \<lparr>crypto_pwhash = (\<lambda>outlen passwd salt opslimit memlimit alg.
         (0, \<lambda>i. of_nat (length passwd + opslimit + i))),
      crypto_pwhash_SALTBYTES = 16,
      crypto_pwhash_MEMLIMIT_INTERACTIVE = 67108864,
      crypto_pwhash_OPSLIMIT_INTERACTIVE = 2,
      crypto_pwhash_MEMLIMIT_MODERATE = 268435456,
      crypto_pwhash_OPSLIMIT_MODERATE = 3,
      crypto_pwhash_MEMLIMIT_SENSITIVE = 1073741824,
      crypto_pwhash_OPSLIMIT_SENSITIVE = 4,
      crypto_pwhash_ALG_DEFAULT = 2\<rparr>"

definition empty_key :: Key where
  "empty_key = \<lparr>keydata = \<lparr>vdata = None, vsize = 0, vcap = 0\<rparr>\<rparr>"

definition world1 :: world where
  "world1 = world0\<lparr>pages := (\<lambda>a. None)(0 \<mapsto> \<lparr>content = [7, 9], prot = ReadOnly\<rparr>), fresh := 1\<rparr>"

definition key1 :: Key where
  "key1 = \<lparr>keydata = \<lparr>vdata = Some 0, vsize = 2, vcap = 2\<rparr>\<rparr>"

definition world1_noaccess :: world where
  "world1_noaccess = world1\<lparr>pages := (\<lambda>a. None)(0 \<mapsto> \<lparr>content = [7, 9], prot = NoAccess\<rparr>)\<rparr>"





definition world2 :: world where
  "world2 = world1\<lparr>pages := (pages world1)(1 \<mapsto> \<lparr>content = [0, 0], prot = ReadWrite\<rparr>), fresh := 2\<rparr>"

definition key2 :: Key where
  "key2 = \<lparr>keydata = \<lparr>vdata = Some 1, vsize = 2, vcap = 2\<rparr>\<rparr>"

section \<open>Memory and protection: basic facts\<close>

lemma andThen_simps:
  "andThen (Done x) f = f x"
  "andThen (Raised e s) f = Raised e s"
  "andThen Crashed f = Crashed"
  by (simp_all add: andThen_def)

lemma store_page:
  assumes "pages w a = Some r" "prot r = ReadWrite" "length bs \<le> length (content r)"
  shows "store w (Some a) bs =
           Some (w\<lparr>pages := (pages w)(a \<mapsto> r\<lparr>content := bs @ drop (length bs) (content r)\<rparr>)\<rparr>)"
proof (cases "bs = []")
  case True
  with assms show ?thesis by (simp add: store_def fun_upd_idem)
next
  case False
  with assms show ?thesis by (simp add: store_def)
qed

lemma protect_page:
  "pages w a = Some r \<Longrightarrow>
     SodiumAlloc_protect w (Some a) s = Done (w\<lparr>pages := (pages w)(a \<mapsto> r\<lparr>prot := s\<rparr>)\<rparr>)"
  by (simp add: SodiumAlloc_protect_def)

lemma protect_null: "SodiumAlloc_protect w None s = Crashed"
  by (simp add: SodiumAlloc_protect_def)

lemma owns_pageE:
  assumes "owns_page w k"
  obtains a r where "Key_data k = Some a" "pages w a = Some r"
    "length (content r) = vcap (keydata k)" "Key_size k \<le> length (content r)"
  using assms by (auto simp: owns_page_def Key_size_def split: option.splits)

lemma Key_bytes_upd:
  "Key_data k = Some a \<Longrightarrow>
     Key_bytes (w\<lparr>pages := (pages w)(a \<mapsto> r)\<rparr>) k = take (Key_size k) (content r)"
  by (simp add: Key_bytes_def)

lemma Key_access_upd:
  "Key_data k = Some a \<Longrightarrow> Key_access (w\<lparr>pages := (pages w)(a \<mapsto> r)\<rparr>) k = Some (prot r)"
  by (simp add: Key_access_def)

lemma Key_protect_page:
  assumes "Key_data k = Some a" "pages w a = Some r"
  shows "Key_readwrite w k = Done (w\<lparr>pages := (pages w)(a \<mapsto> r\<lparr>prot := ReadWrite\<rparr>)\<rparr>)"
    and "Key_readonly w k = Done (w\<lparr>pages := (pages w)(a \<mapsto> r\<lparr>prot := ReadOnly\<rparr>)\<rparr>)"
    and "Key_noaccess w k = Done (w\<lparr>pages := (pages w)(a \<mapsto> r\<lparr>prot := NoAccess\<rparr>)\<rparr>)"
  using assms
  by (simp_all add: Key_readwrite_def Key_readonly_def Key_noaccess_def SodiumAlloc_readwrite_def
      SodiumAlloc_readonly_def SodiumAlloc_noaccess_def protect_page)

lemma Key_destroy_page:
  assumes "Key_data k = Some a" "pages w a = Some r" "Key_size k \<le> length (content r)"
  shows "Key_destroy w k =
           Done (w\<lparr>pages := (pages w)(a \<mapsto>
             r\<lparr>prot := ReadWrite,
               content := replicate (Key_size k) 0 @ drop (Key_size k) (content r)\<rparr>)\<rparr>)"
  using assms
  by (simp add: Key_destroy_def Key_protect_page andThen_simps sodium_memzero_def store_page)

lemma Key_initialize_page:
  assumes "Key_data k = Some a" "pages w a = Some r" "Key_size k \<le> length (content r)"
    "prot r = ReadWrite"
  shows "Key_initialize w k =
           Done (w\<lparr>pages := (pages w)(a \<mapsto>
             r\<lparr>content := map (entropy w) [drawn w..<drawn w + Key_size k]
                            @ drop (Key_size k) (content r)\<rparr>),
             drawn := drawn w + Key_size k\<rparr>)"
  using assms
  by (simp add: Key_initialize_def randombytes_buf_def store_page)

section \<open>destroy()\<close>

text \<open>
  Claim C1, as amended. For every key that owns a page (every key constructed with a
  length of at least 1), whatever the protection of the page (\<open>ReadWrite\<close>, \<open>ReadOnly\<close> or
  \<open>NoAccess\<close>): \<open>destroy()\<close> returns, the key's bytes are then all zero, their number is
  \<open>size()\<close> as before and the page is read-write; a second \<open>destroy()\<close> returns as well
  and leaves exactly the state the first call left.
\<close>

theorem Key_destroy_idempotent:
  assumes "owns_page w k"
  shows "\<exists>w1. Key_destroy w k = Done w1 \<and> isAllZero (Key_bytes w1 k)
           \<and> length (Key_bytes w1 k) = Key_size k \<and> Key_access w1 k = Some ReadWrite
           \<and> Key_destroy w1 k = Done w1"
proof -
  from assms obtain a r where k: "Key_data k = Some a" and r: "pages w a = Some r"
    and len: "Key_size k \<le> length (content r)"
    by (rule owns_pageE)
  let ?r1 = "r\<lparr>prot := ReadWrite,
               content := replicate (Key_size k) 0 @ drop (Key_size k) (content r)\<rparr>"
  let ?w1 = "w\<lparr>pages := (pages w)(a \<mapsto> ?r1)\<rparr>"
  have first: "Key_destroy w k = Done ?w1"
    using k r len by (rule Key_destroy_page)
  have bytes: "Key_bytes ?w1 k = replicate (Key_size k) 0"
    using k by (simp add: Key_bytes_upd)
  have acc: "Key_access ?w1 k = Some ReadWrite"
    using k by (simp add: Key_access_upd)
  have r1: "pages ?w1 a = Some ?r1" by simp
  have len1: "Key_size k \<le> length (content ?r1)" using len by simp
  have "Key_destroy ?w1 k = Done (?w1\<lparr>pages := (pages ?w1)(a \<mapsto>
          ?r1\<lparr>prot := ReadWrite,
            content := replicate (Key_size k) 0 @ drop (Key_size k) (content ?r1)\<rparr>)\<rparr>)"
    using k r1 len1 by (rule Key_destroy_page)
  then have second: "Key_destroy ?w1 k = Done ?w1"
    by simp
  show ?thesis
    using first bytes acc second by (simp add: isAllZero_def)
qed

theorem Key_destroy_idempotent_witness:
  "owns_page world1 key1 \<and>
   (\<exists>w1. Key_destroy world1 key1 = Done w1 \<and> isAllZero (Key_bytes w1 key1)
           \<and> length (Key_bytes w1 key1) = Key_size key1 \<and> Key_access w1 key1 = Some ReadWrite
           \<and> Key_destroy w1 key1 = Done w1)"
proof -
  have h: "owns_page world1 key1"
    by (simp add: owns_page_def world1_def key1_def Key_data_def)
  show ?thesis using h Key_destroy_idempotent [OF h] by simp
qed

text \<open>
  Claim C1 as stated ("for every key") fails on the empty key \<open>Key(0, false)\<close>: its vector
  owns no buffer, \<open>data()\<close> is null, and the \<open>readwrite()\<close> that \<open>destroy()\<close> starts with
  has no page to unprotect.
\<close>

theorem Key_destroy_empty_key_crashes:
  "Key_ctor world0 0 False = Done (world0, empty_key) \<and> Key_destroy world0 empty_key = Crashed"
  by (simp add: Key_ctor_def vector_ctor_def andThen_simps empty_key_def Key_destroy_def
      Key_readwrite_def SodiumAlloc_readwrite_def Key_data_def protect_null)

section \<open>setpass()\<close>

lemma region_upd_both:
  "r\<lparr>prot := p, content := c\<rparr> = \<lparr>content = c, prot = p\<rparr>"
  "r\<lparr>content := c, prot := p\<rparr> = \<lparr>content = c, prot = p\<rparr>"
  by simp_all

lemma setpass_pwhash_None: "setpass_pwhash S n pw salt st = None \<longleftrightarrow> strength_limits S st = None"
  by (simp add: setpass_pwhash_def split: option.splits prod.splits)

lemma setpass_pwhash_length:
  "setpass_pwhash S n pw salt st = Some (rc, out) \<Longrightarrow> length out = n"
  by (auto simp: setpass_pwhash_def split: option.splits prod.splits)

lemma strength_limits_None:
  "strength_limits S st = None \<longleftrightarrow> st \<noteq> low \<and> st \<noteq> medium \<and> st \<noteq> high"
  by (simp add: strength_limits_def)

lemma strength_limits_known:
  "strength_limits S low \<noteq> None" "strength_limits S medium \<noteq> None"
  "strength_limits S high \<noteq> None"
  by (simp_all add: strength_limits_def)

lemma Key_setpass_wrong_strength:
  "strength_limits S st = None \<Longrightarrow> Key_setpass S w k pw salt st = Raised wrong_strength w"
  by (simp add: Key_setpass_def)

lemma Key_setpass_wrong_salt_size:
  "strength_limits S st \<noteq> None \<Longrightarrow> length salt \<noteq> KEYSIZE_SALT S \<Longrightarrow>
     Key_setpass S w k pw salt st = Raised wrong_salt_size w"
  by (auto simp: Key_setpass_def split: option.splits)

lemma Key_setpass_page:
  assumes k: "Key_data k = Some a" and r: "pages w a = Some r"
    and len: "Key_size k \<le> length (content r)"
    and salt: "length salt = KEYSIZE_SALT S"
    and h: "setpass_pwhash S (Key_size k) pw salt st = Some (rc, out)"
  shows "Key_setpass S w k pw salt st =
           (if rc \<noteq> 0 then
              Raised pwhash_failed (w\<lparr>pages := (pages w)(a \<mapsto>
                \<lparr>content = out @ drop (Key_size k) (content r), prot = ReadWrite\<rparr>)\<rparr>)
            else
              Done (w\<lparr>pages := (pages w)(a \<mapsto>
                \<lparr>content = out @ drop (Key_size k) (content r), prot = ReadOnly\<rparr>)\<rparr>))"
proof -
  from h obtain mem cpu bytes where lim: "strength_limits S st = Some (mem, cpu)"
    and call: "crypto_pwhash S (Key_size k) pw salt cpu mem (crypto_pwhash_ALG_DEFAULT S) = (rc, bytes)"
    and out: "out = map bytes [0..<Key_size k]"
    by (auto simp: setpass_pwhash_def split: option.splits prod.splits)
  let ?w1 = "w\<lparr>pages := (pages w)(a \<mapsto> r\<lparr>prot := ReadWrite\<rparr>)\<rparr>"
  let ?w2 = "w\<lparr>pages := (pages w)(a \<mapsto>
                \<lparr>content = out @ drop (Key_size k) (content r), prot = ReadWrite\<rparr>)\<rparr>"
  have rw: "Key_readwrite w k = Done ?w1"
    using k r by (rule Key_protect_page)
  have "store ?w1 (Some a) out = Some (?w1\<lparr>pages := (pages ?w1)(a \<mapsto>
          (r\<lparr>prot := ReadWrite\<rparr>)\<lparr>content := out @ drop (length out) (content (r\<lparr>prot := ReadWrite\<rparr>))\<rparr>)\<rparr>)"
    by (rule store_page) (use len out in simp_all)
  then have st: "store ?w1 (Some a) out = Some ?w2"
    using out by (simp add: region_upd_both)
  have into: "crypto_pwhash_into S ?w1 (Key_data k) (Key_size k) pw salt cpu mem
                (crypto_pwhash_ALG_DEFAULT S) = Done (rc, ?w2)"
    using call st k out by (simp add: crypto_pwhash_into_def)
  have ro: "Key_readonly ?w2 k = Done (?w2\<lparr>pages := (pages ?w2)(a \<mapsto>
       (\<lparr>content = out @ drop (Key_size k) (content r), prot = ReadWrite\<rparr>)\<lparr>prot := ReadOnly\<rparr>)\<rparr>)"
    using k by (rule Key_protect_page) simp
  show ?thesis
    using lim salt rw into ro by (simp add: Key_setpass_def andThen_simps)
qed

lemma Key_setpass_valid:
  assumes "owns_page w k" and lim: "strength_limits S strength \<noteq> None"
    and salt: "length salt = KEYSIZE_SALT S"
  shows "\<exists>rc out. setpass_pwhash S (Key_size k) password salt strength = Some (rc, out) \<and>
           length out = Key_size k \<and>
           (if rc \<noteq> 0 then
              \<exists>w'. Key_setpass S w k password salt strength = Raised pwhash_failed w'
                \<and> Key_access w' k = Some ReadWrite
            else
              \<exists>w'. Key_setpass S w k password salt strength = Done w'
                \<and> Key_bytes w' k = out \<and> Key_access w' k = Some ReadOnly)"
proof -
  from lim obtain rc out
    where h: "setpass_pwhash S (Key_size k) password salt strength = Some (rc, out)"
    using setpass_pwhash_None [of S "Key_size k" password salt strength]
    by (cases "setpass_pwhash S (Key_size k) password salt strength") auto
  from assms(1) obtain a r where k: "Key_data k = Some a" and r: "pages w a = Some r"
    and len: "Key_size k \<le> length (content r)"
    by (rule owns_pageE)
  have outlen: "length out = Key_size k"
    using h by (rule setpass_pwhash_length)
  have "Key_setpass S w k password salt strength =
         (if rc \<noteq> 0 then
            Raised pwhash_failed (w\<lparr>pages := (pages w)(a \<mapsto>
              \<lparr>content = out @ drop (Key_size k) (content r), prot = ReadWrite\<rparr>)\<rparr>)
          else
            Done (w\<lparr>pages := (pages w)(a \<mapsto>
              \<lparr>content = out @ drop (Key_size k) (content r), prot = ReadOnly\<rparr>)\<rparr>))"
    using k r len salt h by (rule Key_setpass_page)
  then have "if rc \<noteq> 0 then
              \<exists>w'. Key_setpass S w k password salt strength = Raised pwhash_failed w'
                \<and> Key_access w' k = Some ReadWrite
            else
              \<exists>w'. Key_setpass S w k password salt strength = Done w'
                \<and> Key_bytes w' k = out \<and> Key_access w' k = Some ReadOnly"
    using k outlen by (simp add: Key_bytes_upd Key_access_upd)
  with h outlen show ?thesis by blast
qed

lemma first_branchI: "A \<Longrightarrow> X \<Longrightarrow> (if A then X else Y)"
  by simp

lemma second_branchI: "\<not> A \<Longrightarrow> B \<Longrightarrow> Y \<Longrightarrow> (if A then X else if B then Y else Z)"
  by simp

lemma third_branchI: "\<not> A \<Longrightarrow> \<not> B \<Longrightarrow> C \<Longrightarrow> (if A then X else if B then Y else C)"
  by simp

lemma owns_page_world1_key1: "owns_page world1 key1"
  by (simp add: owns_page_def world1_def key1_def Key_data_def)

lemma setpass_pwhash_sodium0:
  "setpass_pwhash sodium0 2 ''pw'' (replicate 16 0) medium = Some (0, [5, 6])"
  by (simp add: setpass_pwhash_def strength_limits_def sodium0_def medium_def low_def upt_rec)

text \<open>
  Claim C4. When \<open>setpass\<close> is called with a strength that is none of \<open>low\<close>, \<open>medium\<close>,
  \<open>high\<close>, or with a salt whose size is not \<open>KEYSIZE_SALT\<close>, it throws and the state it
  leaves is the state it found: the key's bytes and the protection of its page are those
  from before the call. The argument checks come before \<open>readwrite()\<close> and before
  \<open>crypto_pwhash()\<close>; this holds for every key and every world.
\<close>

theorem Key_setpass_failed_validation:
  assumes "(strength \<noteq> low \<and> strength \<noteq> medium \<and> strength \<noteq> high) \<or> length salt \<noteq> KEYSIZE_SALT S"
  shows "\<exists>e w'. Key_setpass S w k password salt strength = Raised e w' \<and> w' = w
           \<and> Key_bytes w' k = Key_bytes w k \<and> Key_access w' k = Key_access w k
           \<and> (e = wrong_strength \<or> e = wrong_salt_size)"
proof (cases "strength_limits S strength")
  case None
  then show ?thesis by (simp add: Key_setpass_wrong_strength)
next
  case (Some lim)
  with assms have "length salt \<noteq> KEYSIZE_SALT S"
    by (simp add: strength_limits_def split: if_splits)
  with Some show ?thesis by (simp add: Key_setpass_wrong_salt_size)
qed

theorem Key_setpass_failed_validation_witness:
  "((7 :: strength_t) \<noteq> low \<and> 7 \<noteq> medium \<and> 7 \<noteq> high) \<and>
   (\<exists>e w'. Key_setpass sodium0 world1 key1 ''pw'' [] 7 = Raised e w' \<and> w' = world1
           \<and> Key_bytes w' key1 = Key_bytes world1 key1
           \<and> Key_access w' key1 = Key_access world1 key1
           \<and> (e = wrong_strength \<or> e = wrong_salt_size))"
proof -
  have h: "(7 :: strength_t) \<noteq> low \<and> 7 \<noteq> medium \<and> 7 \<noteq> high"
    by (simp add: low_def medium_def high_def)
  then have "((7 :: strength_t) \<noteq> low \<and> 7 \<noteq> medium \<and> 7 \<noteq> high) \<or> length ([] :: byte list) \<noteq> KEYSIZE_SALT sodium0"
    by simp
  from Key_setpass_failed_validation [OF this, where w = world1 and k = key1
      and password = "''pw''"] h
  show ?thesis by simp
qed

text \<open>
  Claim C3, as amended. On a key that owns a page, \<open>setpass\<close> ends in exactly one of four
  ways, decided in this order: the strength is none of \<open>low\<close>, \<open>medium\<close>, \<open>high\<close> (it throws
  "wrong strength"); the salt's size is not \<open>KEYSIZE_SALT\<close> (it throws "wrong salt size");
  \<open>crypto_pwhash()\<close> returns non-zero (it throws "crypto_pwhash()", the page left
  read-write); otherwise it returns, the key holds the derived bytes and the page is
  read-only. All three errors are exceptions, none brings the process down.
\<close>

theorem Key_setpass_outcome:
  assumes "owns_page w k"
  shows "if strength \<noteq> low \<and> strength \<noteq> medium \<and> strength \<noteq> high then
           Key_setpass S w k password salt strength = Raised wrong_strength w
         else if length salt \<noteq> KEYSIZE_SALT S then
           Key_setpass S w k password salt strength = Raised wrong_salt_size w
         else
           \<exists>rc out. setpass_pwhash S (Key_size k) password salt strength = Some (rc, out) \<and>
             (if rc \<noteq> 0 then
                \<exists>w'. Key_setpass S w k password salt strength = Raised pwhash_failed w'
                  \<and> Key_access w' k = Some ReadWrite
              else
                \<exists>w'. Key_setpass S w k password salt strength = Done w'
                  \<and> Key_bytes w' k = out \<and> Key_access w' k = Some ReadOnly)"
proof (cases "strength_limits S strength")
  case None
  then have "strength \<noteq> low \<and> strength \<noteq> medium \<and> strength \<noteq> high"
    by (simp add: strength_limits_None)
  then show ?thesis
    using None by (intro first_branchI) (simp_all add: Key_setpass_wrong_strength)
next
  case (Some lim)
  then have ok: "\<not> (strength \<noteq> low \<and> strength \<noteq> medium \<and> strength \<noteq> high)"
    using strength_limits_None [of S strength] by simp
  show ?thesis
  proof (cases "length salt = KEYSIZE_SALT S")
    case False
    have "Key_setpass S w k password salt strength = Raised wrong_salt_size w"
      using Some False by (simp add: Key_setpass_wrong_salt_size)
    with ok False show ?thesis by (intro second_branchI) simp_all
  next
    case True
    have "\<exists>rc out.
        setpass_pwhash S (Key_size k) password salt strength = Some (rc, out) \<and>
             (if rc \<noteq> 0 then
                \<exists>w'. Key_setpass S w k password salt strength = Raised pwhash_failed w'
                  \<and> Key_access w' k = Some ReadWrite
              else
                \<exists>w'. Key_setpass S w k password salt strength = Done w'
                  \<and> Key_bytes w' k = out \<and> Key_access w' k = Some ReadOnly)"
      using Key_setpass_valid [OF assms _ True, of strength password] Some by blast
    with ok True show ?thesis by (intro third_branchI) simp_all
  qed
qed

theorem Key_setpass_outcome_witness:
  "owns_page world1 key1 \<and>
   (\<exists>w'. Key_setpass sodium0 world1 key1 ''pw'' (replicate 16 0) medium = Done w'
      \<and> Key_bytes w' key1 = [5, 6] \<and> Key_access w' key1 = Some ReadOnly)"
proof -
  have s: "Key_size key1 = 2" by (simp add: key1_def Key_size_def)
  have salt: "KEYSIZE_SALT sodium0 = 16" by (simp add: KEYSIZE_SALT_def sodium0_def)
  from Key_setpass_outcome [OF owns_page_world1_key1, where strength = medium
      and salt = "replicate 16 0" and S = sodium0 and password = "''pw''"]
  show ?thesis
    by (simp add: owns_page_world1_key1 s salt setpass_pwhash_sodium0)
qed

text \<open>
  Claim C3 as stated ("in every other case the call succeeds") fails on the empty key
  \<open>Key(0, false)\<close>: with a recognised strength and a salt of the right size, whatever
  \<open>crypto_pwhash()\<close> would answer, the call neither returns nor throws; \<open>readwrite()\<close> has
  no page to unprotect.
\<close>

theorem Key_setpass_empty_key_crashes:
  "Key_ctor world0 0 False = Done (world0, empty_key) \<and>
   Key_setpass sodium0 world0 empty_key ''CPE1704TKS'' (replicate 16 0) medium = Crashed"
  by (simp add: Key_ctor_def vector_ctor_def andThen_simps empty_key_def Key_setpass_def
      strength_limits_def Key_readwrite_def SodiumAlloc_readwrite_def Key_data_def protect_null
      KEYSIZE_SALT_def sodium0_def)

text \<open>The same for every libsodium: \<open>crypto_pwhash()\<close> is not even called.\<close>

lemma Key_setpass_empty_key:
  "strength_limits S strength \<noteq> None \<Longrightarrow> length salt = KEYSIZE_SALT S \<Longrightarrow>
     Key_setpass S w empty_key password salt strength = Crashed"
  by (auto simp: Key_setpass_def andThen_simps empty_key_def Key_readwrite_def
      SodiumAlloc_readwrite_def Key_data_def protect_null)

section \<open>The constructor\<close>

lemma vector_ctor_pos:
  assumes "0 < n" "n \<le> avail w"
  shows "vector_ctor w n =
           Done (w\<lparr>pages := (pages w)(fresh w \<mapsto> \<lparr>content = replicate n 0, prot = ReadWrite\<rparr>),
                   fresh := Suc (fresh w), avail := avail w - n\<rparr>,
                 \<lparr>vdata = Some (fresh w), vsize = n, vcap = n\<rparr>)"
  using assms
  by (simp add: vector_ctor_def SodiumAlloc_allocate_def andThen_simps store_def)

lemma vector_ctor_zero: "vector_ctor w 0 = Done (w, \<lparr>vdata = None, vsize = 0, vcap = 0\<rparr>)"
  by (simp add: vector_ctor_def)


lemma Key_ctor_zero_uninit: "Key_ctor w 0 False = Done (w, empty_key)"
  by (simp add: Key_ctor_def vector_ctor_zero andThen_simps empty_key_def)

lemma Key_ctor_init_pos:
  assumes "0 < n" "n \<le> avail w"
  shows "Key_ctor w n True =
           Done (w\<lparr>pages := (pages w)(fresh w \<mapsto>
                     \<lparr>content = map (entropy w) [drawn w..<drawn w + n], prot = ReadOnly\<rparr>),
                   fresh := Suc (fresh w), avail := avail w - n, drawn := drawn w + n\<rparr>,
                 \<lparr>keydata = \<lparr>vdata = Some (fresh w), vsize = n, vcap = n\<rparr>\<rparr>)"
proof -
  let ?k = "\<lparr>keydata = \<lparr>vdata = Some (fresh w), vsize = n, vcap = n\<rparr>\<rparr>"
  let ?r1 = "\<lparr>content = replicate n (0 :: byte), prot = ReadWrite\<rparr>"
  let ?w1 = "w\<lparr>pages := (pages w)(fresh w \<mapsto> ?r1), fresh := Suc (fresh w), avail := avail w - n\<rparr>"
  have k: "Key_data ?k = Some (fresh w)" "Key_size ?k = n"
    by (simp_all add: Key_data_def Key_size_def)
  have init: "Key_initialize ?w1 ?k =
           Done (?w1\<lparr>pages := (pages ?w1)(fresh w \<mapsto>
             ?r1\<lparr>content := map (entropy ?w1) [drawn ?w1..<drawn ?w1 + Key_size ?k]
                            @ drop (Key_size ?k) (content ?r1)\<rparr>),
             drawn := drawn ?w1 + Key_size ?k\<rparr>)"
    by (rule Key_initialize_page) (simp_all add: k)
  let ?r2 = "\<lparr>content = map (entropy w) [drawn w..<drawn w + n], prot = ReadWrite\<rparr>"
  let ?w2 = "w\<lparr>pages := (pages w)(fresh w \<mapsto> ?r2), fresh := Suc (fresh w),
               avail := avail w - n, drawn := drawn w + n\<rparr>"
  from init have init': "Key_initialize ?w1 ?k = Done ?w2"
    by (simp add: k)
  have ro: "Key_readonly ?w2 ?k = Done (?w2\<lparr>pages := (pages ?w2)(fresh w \<mapsto> ?r2\<lparr>prot := ReadOnly\<rparr>)\<rparr>)"
    by (rule Key_protect_page) (simp_all add: k)
  show ?thesis
    using assms init' ro by (simp add: Key_ctor_def vector_ctor_pos andThen_simps)
qed

lemma Key_ctor_zero_init: "Key_ctor w 0 True = Crashed"
  by (simp add: Key_ctor_def vector_ctor_zero andThen_simps Key_initialize_def randombytes_buf_def
      store_def Key_size_def Key_data_def Key_readonly_def SodiumAlloc_readonly_def protect_null)

lemma isAllZero_map_upt:
  "isAllZero (map f [d..<d + n]) \<longleftrightarrow> (\<forall>i<n. f (d + i) = 0)"
  by (auto simp: isAllZero_def list_eq_iff_nth_eq)

lemma avail_world0: "avail world0 = 4096"
  by (simp add: world0_def)

text \<open>
  Claim C5. For every length \<open>n\<close> of at least 1 that the allocator can grant,
  \<open>Key(n)\<close> (that is \<open>Key(n, true)\<close>) returns a key of size \<open>n\<close> whose bytes are the next \<open>n\<close>
  bytes of the random source, in a read-only page. The buffer is all zero only if the
  random source delivered \<open>n\<close> zero bytes. (Length 0 is not valid for this constructor:
  \<open>Key(0, true)\<close> brings the process down in \<open>readonly()\<close>, see \<open>Key_ctor_zero_init\<close> and
  src/tests/test_key.cpp, lines 268-272.)
\<close>

theorem Key_ctor_randomized:
  assumes "0 < n" and "n \<le> avail w"
  shows "\<exists>w' k. Key_ctor w n True = Done (w', k) \<and> Key_size k = n
           \<and> length (Key_bytes w' k) = n
           \<and> Key_bytes w' k = map (entropy w) [drawn w..<drawn w + n]
           \<and> (isAllZero (Key_bytes w' k) \<longleftrightarrow> (\<forall>i<n. entropy w (drawn w + i) = 0))
           \<and> Key_access w' k = Some ReadOnly \<and> owns_page w' k"
proof -
  let ?k = "\<lparr>keydata = \<lparr>vdata = Some (fresh w), vsize = n, vcap = n\<rparr>\<rparr>"
  have k: "Key_data ?k = Some (fresh w)" "Key_size ?k = n"
    by (simp_all add: Key_data_def Key_size_def)
  show ?thesis
    using Key_ctor_init_pos [OF assms] k
    by (simp add: Key_bytes_def Key_access_def owns_page_def isAllZero_map_upt)
qed

theorem Key_ctor_randomized_witness:
  "(0 :: nat) < 2 \<and> 2 \<le> avail world0 \<and>
   (\<exists>w' k. Key_ctor world0 2 True = Done (w', k) \<and> Key_size k = 2
      \<and> Key_bytes w' k = [1, 2] \<and> \<not> isAllZero (Key_bytes w' k)
      \<and> Key_access w' k = Some ReadOnly)"
proof -
  have h: "(0 :: nat) < 2" "2 \<le> avail world0"
    by (simp_all add: avail_world0)
  have e: "map (entropy world0) [drawn world0..<drawn world0 + 2] = [1, 2]"
    by (simp add: world0_def upt_rec)
  from Key_ctor_randomized [OF h] e h show ?thesis
    by (auto simp: isAllZero_def)
qed

section \<open>Calls that keep the size and the zero bytes\<close>




lemma owns_page_drawn [simp]: "owns_page (w\<lparr>drawn := d\<rparr>) k = owns_page w k"
  by (simp add: owns_page_def split: option.splits)




















section \<open>Copying\<close>

lemma Key_copy_ctor_page:
  assumes k: "Key_data k = Some a" and r: "pages w a = Some r"
    and len: "Key_size k \<le> length (content r)" and pos: "0 < Key_size k"
    and acc: "prot r \<noteq> NoAccess" and mem: "Key_size k \<le> avail w" and fresh: "a \<noteq> fresh w"
  shows "Key_copy_ctor w k =
           Done (w\<lparr>pages := (pages w)(fresh w \<mapsto>
                     \<lparr>content = take (Key_size k) (content r), prot = ReadWrite\<rparr>),
                   fresh := Suc (fresh w), avail := avail w - Key_size k\<rparr>,
                 \<lparr>keydata = \<lparr>vdata = Some (fresh w), vsize = Key_size k, vcap = Key_size k\<rparr>\<rparr>)"
proof -
  let ?n = "Key_size k"
  let ?w1 = "w\<lparr>pages := (pages w)(fresh w \<mapsto> \<lparr>content = replicate ?n 0xDB, prot = ReadWrite\<rparr>),
               fresh := Suc (fresh w), avail := avail w - ?n\<rparr>"
  have alloc: "SodiumAlloc_allocate w ?n = Done (fresh w, ?w1)"
    using mem by (simp add: SodiumAlloc_allocate_def)
  have ld: "load ?w1 (Some a) ?n = Some (take ?n (content r))"
    using r len pos acc fresh by (simp add: load_def)
  have st: "store ?w1 (Some (fresh w)) (take ?n (content r)) =
      Some (?w1\<lparr>pages := (pages ?w1)(fresh w \<mapsto>
         \<lparr>content = replicate ?n 0xDB, prot = ReadWrite\<rparr>\<lparr>content :=
            take ?n (content r) @ drop (length (take ?n (content r))) (content
              \<lparr>content = replicate ?n 0xDB, prot = ReadWrite\<rparr>)\<rparr>)\<rparr>)"
    by (rule store_page) (use len in simp_all)
  show ?thesis
    using pos alloc ld st len k
    by (simp add: Key_copy_ctor_def vector_copy_ctor_def andThen_simps Key_size_def Key_data_def
        min_absorb2)
qed

lemma world_inv_world1: "world_inv world1"
  by (simp add: world_inv_def world1_def)

text \<open>
  Claim C9, as amended. Copy construction from a key that owns a page, has at least one
  byte and is readable (\<open>ReadOnly\<close> or \<open>ReadWrite\<close>), when the allocator can grant the
  memory, returns a new key with the same size and the same bytes in an allocation of
  its own: the two \<open>data()\<close> pointers differ. The copy's page is read-write. The source
  keeps its bytes, its protection and its page.
\<close>

theorem Key_copy_ctor_distinct:
  assumes "owns_page w k" and "world_inv w" and "0 < Key_size k"
    and "Key_access w k \<noteq> Some NoAccess" and "Key_size k \<le> avail w"
  shows "\<exists>w' k'. Key_copy_ctor w k = Done (w', k')
           \<and> Key_size k' = Key_size k \<and> Key_bytes w' k' = Key_bytes w k
           \<and> Key_data k' \<noteq> Key_data k \<and> owns_page w' k' \<and> Key_access w' k' = Some ReadWrite
           \<and> Key_bytes w' k = Key_bytes w k \<and> Key_access w' k = Key_access w k
           \<and> owns_page w' k \<and> world_inv w'"
proof -
  from assms(1) obtain a r where k: "Key_data k = Some a" and r: "pages w a = Some r"
    and cap: "length (content r) = vcap (keydata k)" and len: "Key_size k \<le> length (content r)"
    by (rule owns_pageE)
  from assms(2) r have fresh: "a \<noteq> fresh w"
    by (auto simp: world_inv_def)
  from assms(4) k r have acc: "prot r \<noteq> NoAccess"
    by (simp add: Key_access_def)
  let ?k' = "\<lparr>keydata = \<lparr>vdata = Some (fresh w), vsize = Key_size k, vcap = Key_size k\<rparr>\<rparr>"
  let ?w' = "w\<lparr>pages := (pages w)(fresh w \<mapsto>
                     \<lparr>content = take (Key_size k) (content r), prot = ReadWrite\<rparr>),
                   fresh := Suc (fresh w), avail := avail w - Key_size k\<rparr>"
  have copy: "Key_copy_ctor w k = Done (?w', ?k')"
    using k r len assms(3) acc assms(5) fresh by (rule Key_copy_ctor_page)
  have k': "Key_data ?k' = Some (fresh w)" "Key_size ?k' = Key_size k"
    by (simp_all add: Key_data_def Key_size_def)
  have 1: "Key_bytes ?w' ?k' = Key_bytes w k"
    using k r len by (simp add: Key_bytes_def k')
  have 2: "Key_data ?k' \<noteq> Key_data k"
    using k fresh by (simp add: k')
  have 3: "owns_page ?w' ?k'"
    using len by (simp add: owns_page_def k')
  have 4: "Key_access ?w' ?k' = Some ReadWrite"
    by (simp add: Key_access_def k')
  have 5: "Key_bytes ?w' k = Key_bytes w k" "Key_access ?w' k = Key_access w k" "owns_page ?w' k"
    using k r fresh assms(1) by (simp_all add: Key_bytes_def Key_access_def owns_page_def)
  have 6: "world_inv ?w'"
    using assms(2) by (auto simp: world_inv_def)
  from copy k'(2) 1 2 3 4 5 6 show ?thesis by blast
qed

theorem Key_copy_ctor_distinct_witness:
  "owns_page world1 key1 \<and> world_inv world1 \<and> 0 < Key_size key1
   \<and> Key_access world1 key1 \<noteq> Some NoAccess \<and> Key_size key1 \<le> avail world1 \<and>
   (\<exists>w' k'. Key_copy_ctor world1 key1 = Done (w', k')
           \<and> Key_size k' = 2 \<and> Key_bytes w' k' = [7, 9]
           \<and> Key_data k' \<noteq> Key_data key1 \<and> Key_access w' k' = Some ReadWrite
           \<and> Key_bytes w' key1 = [7, 9] \<and> Key_access w' key1 = Some ReadOnly)"
proof -
  have h: "0 < Key_size key1" "Key_access world1 key1 \<noteq> Some NoAccess"
    "Key_size key1 \<le> avail world1"
    by (simp_all add: key1_def world1_def world0_def Key_size_def Key_access_def Key_data_def)
  have v: "Key_size key1 = 2" "Key_bytes world1 key1 = [7, 9]"
    "Key_access world1 key1 = Some ReadOnly"
    by (simp_all add: key1_def world1_def world0_def Key_size_def Key_access_def Key_data_def
        Key_bytes_def)
  from Key_copy_ctor_distinct [OF owns_page_world1_key1 world_inv_world1 h]
  show ?thesis
    using owns_page_world1_key1 world_inv_world1 h v by auto
qed

text \<open>
  Claim C9 as stated fails on the empty key, whose copy is empty as well (neither owns
  an allocation, both \<open>data()\<close> pointers are null), and on a key made \<open>noaccess()\<close>, whose
  bytes cannot be read (src/tests/test_key.cpp, lines 137-139: "or we'll crash the
  program here").
\<close>

theorem Key_copy_ctor_empty_or_noaccess:
  "Key_ctor world0 0 False = Done (world0, empty_key)
   \<and> Key_copy_ctor world0 empty_key = Done (world0, empty_key)
   \<and> Key_noaccess world1 key1 = Done world1_noaccess
   \<and> Key_copy_ctor world1_noaccess key1 = Crashed"
  by (simp add: Key_ctor_zero_uninit Key_copy_ctor_def vector_copy_ctor_def empty_key_def
      andThen_simps Key_noaccess_def SodiumAlloc_noaccess_def SodiumAlloc_protect_def
      SodiumAlloc_allocate_def Key_data_def key1_def world1_def world0_def load_def
      world1_noaccess_def)

section \<open>Moving\<close>

text \<open>
  Claim C8, evaluated on the code. \<open>Key\<close> has no move operations, so moving copies: after
  \<open>Key k2 {std::move(key1)}\<close> and after \<open>key2 = std::move(key1)\<close> the source still has its 2
  bytes and its page, and the target holds a copy in a page of its own. With the source
  made \<open>noaccess()\<close> first, as src/tests/test_key.cpp (lines 288-290) does, the copy cannot
  read it.
\<close>

theorem Key_move_is_copy:
  "(\<exists>w' k'. Key_move_ctor world1 key1 = Done (w', k')
      \<and> Key_size k' = 2 \<and> Key_bytes w' k' = [7, 9] \<and> Key_data k' = Some 1
      \<and> Key_data key1 = Some 0 \<and> Key_size key1 = 2 \<and> owns_page w' key1
      \<and> Key_bytes w' key1 = [7, 9])
   \<and> (\<exists>w' k'. Key_move_assign world2 key2 key1 = Done (w', k')
      \<and> Key_size k' = 2 \<and> Key_bytes w' k' = [7, 9] \<and> Key_data k' = Some 1
      \<and> Key_data key1 = Some 0 \<and> Key_size key1 = 2 \<and> owns_page w' key1
      \<and> Key_bytes w' key1 = [7, 9])
   \<and> (\<exists>w. Key_noaccess world1 key1 = Done w \<and> Key_move_ctor w key1 = Crashed)"
  by (simp add: Key_move_ctor_def Key_move_assign_def Key_copy_ctor_def Key_copy_assign_def
      vector_copy_ctor_def vector_copy_assign_def andThen_simps Key_noaccess_def
      SodiumAlloc_noaccess_def SodiumAlloc_protect_def SodiumAlloc_allocate_def Key_data_def
      Key_size_def Key_bytes_def owns_page_def key1_def key2_def world2_def world1_def world0_def
      load_def store_def)

end
